theory Spec2Isabelle
  imports Main "HOL-Library.Word" "HOL-Library.Sublist"
begin

section \<open>Python values\<close>

text \<open>
  A Python \<open>str\<close> is a sequence of Unicode code points; a code point is a natural
  number below \<open>0x110000\<close>. Literals of the source are written as Isabelle strings
  and turned into code points by \<open>str\<close>.
\<close>

type_synonym pystr = "nat list"

type_synonym byte = "8 word"

definition str :: "string \<Rightarrow> pystr" where
  "str s = map of_char s"

fun join_lines :: "string list \<Rightarrow> pystr" where
  "join_lines [] = []"
| "join_lines [l] = str l"
| "join_lines (l # ls) = str l @ 10 # join_lines ls"

text \<open>
  The values the module handles: \<open>None\<close>, booleans, integers, strings, lists and
  dictionaries. A dictionary keeps insertion order and its keys are hashable values;
  \<open>True\<close> and \<open>1\<close> (and \<open>False\<close> and \<open>0\<close>) are the same key.
\<close>

datatype pykey = KNone | KBool bool | KInt int | KStr pystr

datatype pyval =
    PNone
  | PBool bool
  | PInt int
  | PStr pystr
  | PList "pyval list"
  | PDict "(pykey \<times> pyval) list"

datatype error =
    TypeError
  | KeyError pykey
  | JSONDecodeError
  | OSError pystr
  | RequestException pystr

fun key_norm :: "pykey \<Rightarrow> pykey" where
  "key_norm (KBool b) = KInt (if b then 1 else 0)"
| "key_norm k = k"

definition key_eq :: "pykey \<Rightarrow> pykey \<Rightarrow> bool" where
  "key_eq a b = (key_norm a = key_norm b)"

fun dict_get :: "(pykey \<times> pyval) list \<Rightarrow> pykey \<Rightarrow> pyval option" where
  "dict_get [] k = None"
| "dict_get ((k', v) # d) k = (if key_eq k' k then Some v else dict_get d k)"

text \<open>\<open>d[k] = v\<close>: an existing key keeps its place and gets the new value.\<close>

fun dict_set :: "(pykey \<times> pyval) list \<Rightarrow> pykey \<Rightarrow> pyval \<Rightarrow> (pykey \<times> pyval) list" where
  "dict_set [] k v = [(k, v)]"
| "dict_set ((k', v') # d) k v =
     (if key_eq k' k then (k', v) # d else (k', v') # dict_set d k v)"

fun key_val :: "pykey \<Rightarrow> pyval" where
  "key_val KNone = PNone"
| "key_val (KBool b) = PBool b"
| "key_val (KInt i) = PInt i"
| "key_val (KStr s) = PStr s"

text \<open>Hashing a value for use as a key: lists and dictionaries are unhashable.\<close>

fun as_key :: "pyval \<Rightarrow> error + pykey" where
  "as_key PNone = Inr KNone"
| "as_key (PBool b) = Inr (KBool b)"
| "as_key (PInt i) = Inr (KInt i)"
| "as_key (PStr s) = Inr (KStr s)"
| "as_key (PList xs) = Inl TypeError"
| "as_key (PDict d) = Inl TypeError"

text \<open>
  \<open>obj[name]\<close> with a string subscript: a dictionary looks the key up and raises
  \<open>KeyError\<close> when it is missing; for a string or a list the subscript must be an
  integer, and \<open>None\<close>, booleans and integers are not subscriptable: \<open>TypeError\<close>.
\<close>

fun getitem :: "pyval \<Rightarrow> pystr \<Rightarrow> error + pyval" where
  "getitem (PDict d) name =
     (case dict_get d (KStr name) of
        None \<Rightarrow> Inl (KeyError (KStr name))
      | Some v \<Rightarrow> Inr v)"
| "getitem obj name = Inl TypeError"

text \<open>
  \<open>for item in obj\<close>: a list yields its elements, a dictionary its keys, a string
  its characters; the other values are not iterable.
\<close>

fun iterate :: "pyval \<Rightarrow> error + pyval list" where
  "iterate (PList xs) = Inr xs"
| "iterate (PDict d) = Inr (map (\<lambda>kv. key_val (fst kv)) d)"
| "iterate (PStr s) = Inr (map (\<lambda>c. PStr [c]) s)"
| "iterate obj = Inl TypeError"


section \<open>\<open>json.dumps(obj, indent=2)\<close>\<close>

text \<open>
  Strings are written by \<open>encode_basestring_ascii\<close>: the backslash, the double quote
  and everything outside \<open>' '..'~'\<close> is escaped, so the text is ASCII.
\<close>

definition hex_digit :: "nat \<Rightarrow> nat" where
  "hex_digit d = (if d < 10 then 48 + d else 87 + d)"

definition u_escape :: "nat \<Rightarrow> pystr" where
  "u_escape n =
     [92, 117, hex_digit (n div 4096 mod 16), hex_digit (n div 256 mod 16),
      hex_digit (n div 16 mod 16), hex_digit (n mod 16)]"

definition escape_char :: "nat \<Rightarrow> pystr" where
  "escape_char c =
     (if c = 92 then [92, 92]
      else if c = 34 then [92, 34]
      else if c = 8 then [92, 98]
      else if c = 12 then [92, 102]
      else if c = 10 then [92, 110]
      else if c = 13 then [92, 114]
      else if c = 9 then [92, 116]
      else if 32 \<le> c \<and> c \<le> 126 then [c]
      else if c < 0x10000 then u_escape c
      else (let n = c - 0x10000
            in u_escape (0xd800 + n div 1024 mod 1024) @ u_escape (0xdc00 + n mod 1024)))"

definition encode_basestring_ascii :: "pystr \<Rightarrow> pystr" where
  "encode_basestring_ascii s = 34 # concat (map escape_char s) @ [34]"

function digits :: "nat \<Rightarrow> pystr" where
  "digits n = (if n < 10 then [48 + n] else digits (n div 10) @ [48 + n mod 10])"
  by pat_completeness auto
termination
  by (relation "measure id") auto

definition int_str :: "int \<Rightarrow> pystr" where
  "int_str i = (if i < 0 then 45 # digits (nat (- i)) else digits (nat i))"

text \<open>A key that is not a string is written as the string of its JSON form.\<close>

fun key_text :: "pykey \<Rightarrow> pystr" where
  "key_text (KStr s) = s"
| "key_text (KBool b) = (if b then str ''true'' else str ''false'')"
| "key_text KNone = str ''null''"
| "key_text (KInt i) = int_str i"

definition newline_indent :: "nat \<Rightarrow> pystr" where
  "newline_indent level = 10 # replicate (2 * level) 32"

fun iterencode :: "nat \<Rightarrow> pyval \<Rightarrow> pystr"
  and iterencode_list :: "nat \<Rightarrow> pyval list \<Rightarrow> pystr"
  and iterencode_dict :: "nat \<Rightarrow> (pykey \<times> pyval) list \<Rightarrow> pystr"
where
  "iterencode level PNone = str ''null''"
| "iterencode level (PBool b) = (if b then str ''true'' else str ''false'')"
| "iterencode level (PInt i) = int_str i"
| "iterencode level (PStr s) = encode_basestring_ascii s"
| "iterencode level (PList xs) =
     (if xs = [] then str ''[]''
      else 91 # newline_indent (Suc level) @ iterencode_list (Suc level) xs
             @ newline_indent level @ [93])"
| "iterencode level (PDict d) =
     (if d = [] then str ''{}''
      else 123 # newline_indent (Suc level) @ iterencode_dict (Suc level) d
              @ newline_indent level @ [125])"
| "iterencode_list level [] = []"
| "iterencode_list level (x # xs) =
     iterencode level x
     @ (if xs = [] then [] else 44 # newline_indent level @ iterencode_list level xs)"
| "iterencode_dict level [] = []"
| "iterencode_dict level (kv # d) =
     encode_basestring_ascii (key_text (fst kv)) @ [58, 32] @ iterencode level (snd kv)
     @ (if d = [] then [] else 44 # newline_indent level @ iterencode_dict level d)"

definition dumps :: "pyval \<Rightarrow> pystr" where
  "dumps obj = iterencode 0 obj"


section \<open>\<open>base64.b64encode\<close>\<close>

text \<open>
  \<open>binascii.b2a_base64\<close> shifts the bytes through a bit buffer and emits one
  table character for every six bits; the loop is written out here for a group of
  three bytes, with the two padded endings.
\<close>

definition table_b2a_base64 :: pystr where
  "table_b2a_base64 =
     str ''ABCDEFGHIJKLMNOPQRSTUVWXYZabcdefghijklmnopqrstuvwxyz0123456789+/''"

definition b2a_char :: "nat \<Rightarrow> nat" where
  "b2a_char this_ch = table_b2a_base64 ! this_ch"

fun b2a_base64 :: "nat list \<Rightarrow> pystr" where
  "b2a_base64 (a # b # c # bin_data) =
     [b2a_char (a div 4), b2a_char (a mod 4 * 16 + b div 16),
      b2a_char (b mod 16 * 4 + c div 64), b2a_char (c mod 64)] @ b2a_base64 bin_data"
| "b2a_base64 [a, b] =
     [b2a_char (a div 4), b2a_char (a mod 4 * 16 + b div 16), b2a_char (b mod 16 * 4), 61]"
| "b2a_base64 [a] = [b2a_char (a div 4), b2a_char (a mod 4 * 16), 61, 61]"
| "b2a_base64 [] = []"

definition b64encode :: "byte list \<Rightarrow> pystr" where
  "b64encode bs = b2a_base64 (map unat bs)"


section \<open>The world the module runs in\<close>

text \<open>
  The environment variables (after \<open>load_dotenv()\<close> has run at import), the file
  system's answer to opening and reading a path in binary mode, the network's answer
  to a request, the requests sent so far and the objects printed so far.
\<close>

record request =
  req_url :: pystr
  req_headers :: "(pystr \<times> pystr) list"
  req_json :: pyval

text \<open>
  A response carries its status code and what \<open>response.json()\<close> gives:
  \<open>None\<close> when the body is not JSON.
\<close>

record response =
  status_code :: nat
  body_json :: "pyval option"

record world =
  getenv :: "pystr \<Rightarrow> pystr option"
  read_binary :: "pystr \<Rightarrow> error + byte list"
  requests_post :: "request \<Rightarrow> error + response"
  sent :: "request list"
  stdout :: "pyval list"

type_synonym 'a io = "world \<Rightarrow> (error + 'a) \<times> world"

definition bind_io :: "'a io \<Rightarrow> ('a \<Rightarrow> 'b io) \<Rightarrow> 'b io" where
  "bind_io m f w = (case m w of (Inl e, w') \<Rightarrow> (Inl e, w') | (Inr x, w') \<Rightarrow> f x w')"

definition print :: "pyval \<Rightarrow> unit io" where
  "print obj w = (Inr (), w\<lparr>stdout := stdout w @ [obj]\<rparr>)"


section \<open>The functions of \<open>GA3.py\<close>\<close>

subsection \<open>\<open>generate_sentiment_test_code\<close>\<close>

definition code_before_text :: pystr where
  \<open>code_before_text = join_lines
    ['''',
     ''import httpx'',
     '''',
     ''def analyze_sentiment():'',
     ''    url = "https://api.openai.com/v1/chat/completions"'',
     ''    headers = {'',
     ''        "Authorization": "Bearer dummy_api_key",  # Replace with your actual API key'',
     ''        "Content-Type": "application/json"'',
     ''    }'',
     ''    '',
     ''    payload = {'',
     ''        "model": "gpt-4o-mini",'',
     ''        "messages": ['',
     ''            {"role": "system", "content": "Analyze the sentiment of the following text and classify it as GOOD, BAD, or NEUTRAL."},'',
     ''            {"role": "user", "content": "'']\<close>

definition code_after_text :: pystr where
  \<open>code_after_text = join_lines
    [''"}'',
     ''        ]'',
     ''    }'',
     ''    '',
     ''    response = httpx.post(url, json=payload, headers=headers)'',
     ''    response.raise_for_status()'',
     ''    result = response.json()'',
     ''    '',
     ''    print(result)'',
     '''',
     ''if __name__ == "__main__":'',
     ''    analyze_sentiment()'',
     ''    '']\<close>

definition generate_sentiment_test_code :: "pystr \<Rightarrow> pystr" where
  "generate_sentiment_test_code sample_meaningless_text =
     code_before_text @ sample_meaningless_text @ code_after_text"

subsection \<open>\<open>process_and_count_tokens\<close>\<close>

definition api_url :: pystr where
  "api_url = str ''http://aiproxy.sanand.workers.dev/openai/v1/chat/completions''"

text \<open>\<open>f"Bearer {os.getenv('AIPROXY_TOKEN')}"\<close>: an unset variable formats as \<open>None\<close>.\<close>

definition authorization :: "world \<Rightarrow> pystr" where
  "authorization w =
     str ''Bearer '' @ (case getenv w (str ''AIPROXY_TOKEN'') of
                          None \<Rightarrow> str ''None'' | Some token \<Rightarrow> token)"

definition token_request :: "world \<Rightarrow> pystr \<Rightarrow> request" where
  "token_request w text =
     \<lparr>req_url = api_url,
      req_headers = [(str ''Authorization'', authorization w),
                     (str ''Content-Type'', str ''application/json'')],
      req_json = PDict [(KStr (str ''model''), PStr (str ''gpt-4o-mini'')),
                        (KStr (str ''messages''),
                         PList [PDict [(KStr (str ''role''), PStr (str ''user'')),
                                       (KStr (str ''content''), PStr text)]])]\<rparr>"

definition process_and_count_tokens :: "pystr \<Rightarrow> pyval io" where
  "process_and_count_tokens text w =
     (let rq = token_request w text;
          w' = w\<lparr>sent := sent w @ [rq]\<rparr>
      in case requests_post w rq of
           Inl e \<Rightarrow> (Inl e, w')
         | Inr resp \<Rightarrow>
             (case body_json resp of
                None \<Rightarrow> (Inl JSONDecodeError, w')
              | Some response_json \<Rightarrow>
                  (case getitem response_json (str ''usage'') of
                     Inl e \<Rightarrow> (Inl e, w')
                   | Inr usage \<Rightarrow> (getitem usage (str ''prompt_tokens''), w'))))"

subsection \<open>\<open>generate_openai_address_request\<close>\<close>

text \<open>
  The dictionary comprehension \<open>{item["field"]: {"type": item["type"]} for item in fields}\<close>:
  for each item the key expression is evaluated, then the value expression, then the
  entry is stored (which hashes the key).
\<close>

fun required_fields_from :: "pyval list \<Rightarrow> (pykey \<times> pyval) list \<Rightarrow> error + (pykey \<times> pyval) list" where
  "required_fields_from [] acc = Inr acc"
| "required_fields_from (item # items) acc =
     (case getitem item (str ''field'') of
        Inl e \<Rightarrow> Inl e
      | Inr f \<Rightarrow>
          (case getitem item (str ''type'') of
             Inl e \<Rightarrow> Inl e
           | Inr t \<Rightarrow>
               (case as_key f of
                  Inl e \<Rightarrow> Inl e
                | Inr k \<Rightarrow>
                    required_fields_from items
                      (dict_set acc k (PDict [(KStr (str ''type''), t)])))))"

definition address_json_body :: "(pykey \<times> pyval) list \<Rightarrow> pyval" where
  "address_json_body required_fields =
     PDict
      [(KStr (str ''model''), PStr (str ''gpt-4o-mini'')),
       (KStr (str ''messages''),
        PList [PDict [(KStr (str ''role''), PStr (str ''system'')),
                      (KStr (str ''content''), PStr (str ''Respond in JSON''))],
               PDict [(KStr (str ''role''), PStr (str ''user'')),
                      (KStr (str ''content''),
                       PStr (str ''Generate 10 random addresses in the US''))]]),
       (KStr (str ''response_format''),
        PDict
         [(KStr (str ''type''), PStr (str ''object'')),
          (KStr (str ''properties''),
           PDict
            [(KStr (str ''addresses''),
              PDict
               [(KStr (str ''type''), PStr (str ''array'')),
                (KStr (str ''items''),
                 PDict
                  [(KStr (str ''type''), PStr (str ''object'')),
                   (KStr (str ''properties''), PDict required_fields),
                   (KStr (str ''required''),
                    PList (map (\<lambda>kv. key_val (fst kv)) required_fields)),
                   (KStr (str ''additionalProperties''), PBool False)])])]),
          (KStr (str ''required''), PList [PStr (str ''addresses'')]),
          (KStr (str ''additionalProperties''), PBool False)])]"

definition generate_openai_address_request :: "pyval \<Rightarrow> error + pystr" where
  "generate_openai_address_request field_list =
     (case iterate field_list of
        Inl e \<Rightarrow> Inl e
      | Inr items \<Rightarrow>
          (case required_fields_from items [] of
             Inl e \<Rightarrow> Inl e
           | Inr required_fields \<Rightarrow> Inr (dumps (address_json_body required_fields))))"

subsection \<open>\<open>base64_encoding\<close>\<close>

definition image_base64_url :: "byte list \<Rightarrow> pystr" where
  "image_base64_url image_bytes = str ''data:image/png;base64,'' @ b64encode image_bytes"

definition image_json_body :: "pystr \<Rightarrow> pyval" where
  "image_json_body url =
     PDict
      [(KStr (str ''model''), PStr (str ''gpt-4o-mini'')),
       (KStr (str ''messages''),
        PList
         [PDict
           [(KStr (str ''role''), PStr (str ''user'')),
            (KStr (str ''content''),
             PList
              [PDict [(KStr (str ''type''), PStr (str ''text'')),
                      (KStr (str ''text''), PStr (str ''Extract text from this image.''))],
               PDict [(KStr (str ''type''), PStr (str ''image_url'')),
                      (KStr (str ''image_url''),
                       PDict [(KStr (str ''url''), PStr url)])]])]])]"

definition base64_encoding :: "pystr \<Rightarrow> pystr io" where
  "base64_encoding image_path w =
     (case read_binary w image_path of
        Inl e \<Rightarrow> (Inl e, w)
      | Inr image_bytes \<Rightarrow>
          (Inr (dumps (image_json_body (image_base64_url image_bytes))), w))"

subsection \<open>\<open>generate_embedding_request\<close>\<close>

definition embedding_json_body :: "pystr list \<Rightarrow> pyval" where
  "embedding_json_body messages =
     PDict [(KStr (str ''model''), PStr (str ''text-embedding-3-small'')),
            (KStr (str ''input''), PList (map PStr messages))]"

definition generate_embedding_request :: "pystr list \<Rightarrow> pystr" where
  "generate_embedding_request messages = dumps (embedding_json_body messages)"

subsection \<open>The functions that return a literal\<close>

definition return_most_similar_function_literal :: pystr where
  \<open>return_most_similar_function_literal = join_lines
    ['''',
     ''import numpy as np'',
     ''from itertools import combinations'',
     '''',
     ''def cosine_similarity(vec1, vec2):'',
     ''    """Compute cosine similarity between two vectors."""'',
     ''    return np.dot(vec1, vec2) / (np.linalg.norm(vec1) * np.linalg.norm(vec2))'',
     '''',
     ''def most_similar(embeddings):'',
     ''    """Find the most similar pair of phrases based on cosine similarity."""'',
     ''    phrases = list(embeddings.keys())  # Extract phrase keys'',
     ''    max_similarity = -1  # Initialize lowest possible similarity'',
     ''    most_similar_pair = None'',
     '''',
     ''    # Iterate over all unique pairs of phrases'',
     ''    for phrase1, phrase2 in combinations(phrases, 2):'',
     ''        similarity = cosine_similarity(np.array(embeddings[phrase1]), np.array(embeddings[phrase2]))'',
     '''',
     ''        if similarity > max_similarity:'',
     ''            max_similarity = similarity'',
     ''            most_similar_pair = (phrase1, phrase2) '']\<close>

definition return_most_similar_function :: pystr where
  "return_most_similar_function = return_most_similar_function_literal"

definition docs_similarity_api_endpoint :: pystr where
  "docs_similarity_api_endpoint = str ''https://tds-project-2-ga3-7.vercel.app/similarity''"

definition employee_queries_api_endpoint :: pystr where
  "employee_queries_api_endpoint = str ''https://tds-project-2-ga3-8.vercel.app/execute''"

definition generate_prompt_literal :: pystr where
  \<open>generate_prompt_literal = join_lines
    [''I am designing an AI-based chatbot that correctly answers questions with "Yes" when required. To test this, I need an example interaction where the AI correctly says "Yes." Provide a realistic example where a user asks a question, and the chatbot responds with "Yes."'']\<close>

definition generate_prompt :: pystr where
  "generate_prompt = generate_prompt_literal"


section \<open>Calling the module\<close>

text \<open>
  A call of one of the module's functions, run in a world: it gives the returned
  object or the raised exception, and the world after the call.
\<close>

datatype call =
    Generate_sentiment_test_code pystr
  | Process_and_count_tokens pystr
  | Generate_openai_address_request pyval
  | Base64_encoding pystr
  | Generate_embedding_request "pystr list"
  | Return_most_similar_function
  | Docs_similarity_api_endpoint
  | Employee_queries_api_endpoint
  | Generate_prompt

fun returns_str :: "error + pystr \<Rightarrow> error + pyval" where
  "returns_str (Inl e) = Inl e"
| "returns_str (Inr s) = Inr (PStr s)"

fun invoke :: "call \<Rightarrow> pyval io" where
  "invoke (Generate_sentiment_test_code s) w = (Inr (PStr (generate_sentiment_test_code s)), w)"
| "invoke (Process_and_count_tokens text) w = process_and_count_tokens text w"
| "invoke (Generate_openai_address_request field_list) w =
     (returns_str (generate_openai_address_request field_list), w)"
| "invoke (Base64_encoding image_path) w =
     (case base64_encoding image_path w of (r, w') \<Rightarrow> (returns_str r, w'))"
| "invoke (Generate_embedding_request messages) w =
     (Inr (PStr (generate_embedding_request messages)), w)"
| "invoke Return_most_similar_function w = (Inr (PStr return_most_similar_function), w)"
| "invoke Docs_similarity_api_endpoint w = (Inr (PStr docs_similarity_api_endpoint), w)"
| "invoke Employee_queries_api_endpoint w = (Inr (PStr employee_queries_api_endpoint), w)"
| "invoke Generate_prompt w = (Inr (PStr generate_prompt), w)"

subsection \<open>The demonstration entry point\<close>

definition test_text :: pystr where
  "test_text = str ''Sx RF 8  sBx5X3K  ywpr55N4n s O ssI  6cjrU Qkn0sZx''"

definition demo_text :: pystr where
  "demo_text = str ''List only the valid English words from these: E, 46ZuR2ZxK, 8Ojovt, WSt4wQB, yYyTMKkpnp, tc1Mn2g2, wNKg7, XBxgkeIswj, osJIA, 8dUJ, reAe0zBk''"

definition demo_fields :: pyval where
  "demo_fields =
     PDict [(KStr (str ''state''), PDict [(KStr (str ''type''), PStr (str ''string''))]),
            (KStr (str ''county''), PDict [(KStr (str ''type''), PStr (str ''string''))]),
            (KStr (str ''longitude''), PDict [(KStr (str ''type''), PStr (str ''number''))])]"

definition demo_image_path :: pystr where
  "demo_image_path = str ''daniel.png''"

definition demo_messages :: "pystr list" where
  "demo_messages =
     [str ''Dear user, please verify your transaction code 10389 sent to daniel.putta@gramener.com'',
      str ''Dear user, please verify your transaction code 33454 sent to daniel.putta@gramener.com'']"

definition banner :: "string \<Rightarrow> pyval" where
  "banner q = PStr (str ''================='' @ str q @ str ''===================='')"

text \<open>One section of the demo: print the banner, call the function, print its result.\<close>

definition demo_section :: "string \<Rightarrow> call \<Rightarrow> unit io" where
  "demo_section q c = bind_io (print (banner q)) (\<lambda>_. bind_io (invoke c) print)"

definition main :: "unit io" where
  "main =
     bind_io (demo_section ''Q1'' (Generate_sentiment_test_code test_text)) (\<lambda>_.
     bind_io (demo_section ''Q2'' (Process_and_count_tokens demo_text)) (\<lambda>_.
     bind_io (demo_section ''Q3'' (Generate_openai_address_request demo_fields)) (\<lambda>_.
     bind_io (demo_section ''Q4'' (Base64_encoding demo_image_path)) (\<lambda>_.
     bind_io (demo_section ''Q5'' (Generate_embedding_request demo_messages)) (\<lambda>_.
     bind_io (demo_section ''Q6'' Return_most_similar_function) (\<lambda>_.
     bind_io (demo_section ''Q7'' Docs_similarity_api_endpoint) (\<lambda>_.
     bind_io (demo_section ''Q8'' Employee_queries_api_endpoint) (\<lambda>_.
     demo_section ''Q9'' Generate_prompt))))))))"


section \<open>Reading the output back\<close>

text \<open>
  The module only writes base64 and JSON. To say what its output means, the readers of
  the same standard library are modelled here: \<open>base64.b64decode\<close> on padded
  groups of four characters, and \<open>json.loads\<close>.
\<close>

subsection \<open>\<open>base64.b64decode\<close>\<close>





subsection \<open>\<open>json.loads\<close>\<close>
















section \<open>Notions used to state the properties\<close>

text \<open>The text that opens and closes the user message in the generated snippet.\<close>

definition user_content_open :: pystr where
  \<open>user_content_open = str ''{"role": "user", "content": "''\<close>

definition user_content_close :: pystr where
  \<open>user_content_close = str ''"}''\<close>

text \<open>The calls that read the world: the network call and the file read.\<close>

fun reads_world :: "call \<Rightarrow> bool" where
  "reads_world (Process_and_count_tokens text) = True"
| "reads_world (Base64_encoding image_path) = True"
| "reads_world c = False"

text \<open>
  A world for examples: no environment variable is set, no file can be opened, the
  network answers every request with \<open>r\<close>, nothing has been sent or printed.
\<close>

definition replying_world :: "error + response \<Rightarrow> world" where
  "replying_world r =
     \<lparr>getenv = (\<lambda>_. None),
      read_binary = (\<lambda>_. Inl (OSError (str ''FileNotFoundError''))),
      requests_post = (\<lambda>_. r),
      sent = [],
      stdout = []\<rparr>"

definition usage_reply :: "pyval \<Rightarrow> pyval" where
  "usage_reply n = PDict [(KStr (str ''usage''), PDict [(KStr (str ''prompt_tokens''), n)])]"



















section \<open>Basic facts\<close>

lemma str_append: "str (a @ b) = str a @ str b" by (simp add: str_def)

lemma str_eq_simps: "str [] = []" "str (c # cs) = of_char c # str cs"
  by (simp_all add: str_def)

lemma key_eq_KStr: "key_eq (KStr a) (KStr b) = (a = b)" by (simp add: key_eq_def)

lemma token_request_stdout [simp]:
  "token_request (w\<lparr>stdout := out\<rparr>) text = token_request w text"
  by (simp add: token_request_def authorization_def)

lemma code_before_text_ends:
  "\<exists>pre. code_before_text = pre @ user_content_open"
  unfolding code_before_text_def user_content_open_def
  by (simp add: str_def)

lemma code_after_text_begins:
  "\<exists>post. code_after_text = user_content_close @ post"
  unfolding code_after_text_def user_content_close_def
  by (simp add: str_def)


section \<open>The base64 round trip\<close>

















section \<open>The JSON round trip\<close>

subsection \<open>Strings\<close>
















subsection \<open>Values\<close>
























section \<open>The dictionary of fields\<close>
























section \<open>Properties of the functions\<close>

subsection \<open>The literal functions and the generated snippet\<close>

text \<open>
  C5: \<open>docs_similarity_api_endpoint\<close> and \<open>employee_queries_api_endpoint\<close> take no
  argument and in every world return their hard-coded URL, leaving the world as it was.
\<close>

theorem endpoints_are_constants:
  "invoke Docs_similarity_api_endpoint w
     = (Inr (PStr (str ''https://tds-project-2-ga3-7.vercel.app/similarity'')), w)
   \<and> invoke Employee_queries_api_endpoint w
     = (Inr (PStr (str ''https://tds-project-2-ga3-8.vercel.app/execute'')), w)"
  by (simp add: docs_similarity_api_endpoint_def employee_queries_api_endpoint_def)

text \<open>
  C8: for every string \<open>s\<close> the result of \<open>generate_sentiment_test_code\<close> contains
  \<open>s\<close> as a contiguous substring, unescaped, between the opening of the user message's
  content and its closing quote and brace.
\<close>

theorem sentiment_code_contains_text:
  "sublist s (generate_sentiment_test_code s)
   \<and> (\<exists>pre post. generate_sentiment_test_code s
          = pre @ user_content_open @ s @ user_content_close @ post)"
proof
  show "sublist s (generate_sentiment_test_code s)"
    unfolding generate_sentiment_test_code_def sublist_def by blast
next
  obtain pre where p: "code_before_text = pre @ user_content_open"
    using code_before_text_ends by blast
  obtain post where q: "code_after_text = user_content_close @ post"
    using code_after_text_begins by blast
  show "\<exists>pre post. generate_sentiment_test_code s
          = pre @ user_content_open @ s @ user_content_close @ post"
    unfolding generate_sentiment_test_code_def p q by auto
qed

text \<open>
  C7: a call of any function other than \<open>process_and_count_tokens\<close> and
  \<open>base64_encoding\<close> leaves the world unchanged and gives the same result in every
  world: it depends on its arguments only.
\<close>

theorem pure_calls_ignore_world:
  "\<not> reads_world c \<Longrightarrow> invoke c w = (fst (invoke c w'), w)"
  by (cases c) simp_all

theorem pure_calls_ignore_world_witness:
  "invoke Generate_prompt (replying_world (Inl TypeError))
     = (fst (invoke Generate_prompt (replying_world (Inl JSONDecodeError))),
        replying_world (Inl TypeError))"
  using pure_calls_ignore_world [of Generate_prompt "replying_world (Inl TypeError)"
          "replying_world (Inl JSONDecodeError)"]
  by simp

subsection \<open>The network call\<close>

text \<open>
  C3 (as amended): \<open>process_and_count_tokens\<close> sends exactly one request, to the
  hard-coded chat-completions URL, whose scheme is plain \<open>http\<close>; when the response
  body is JSON with \<open>usage\<close> and, in it, \<open>prompt_tokens\<close>, that value is returned.
\<close>

theorem process_and_count_tokens_http:
  "sent (snd (process_and_count_tokens text w)) = sent w @ [token_request w text]
   \<and> req_url (token_request w text)
       = str ''http://aiproxy.sanand.workers.dev/openai/v1/chat/completions''
   \<and> (\<forall>resp response_json usage n.
         requests_post w (token_request w text) = Inr resp
         \<and> body_json resp = Some response_json
         \<and> getitem response_json (str ''usage'') = Inr usage
         \<and> getitem usage (str ''prompt_tokens'') = Inr n
         \<longrightarrow> fst (process_and_count_tokens text w) = Inr n)"
  by (auto simp: process_and_count_tokens_def Let_def token_request_def api_url_def
           split: sum.splits option.splits)

theorem process_and_count_tokens_http_witness:
  "fst (process_and_count_tokens (str ''hi'')
          (replying_world (Inr \<lparr>status_code = 200, body_json = Some (usage_reply (PInt 7))\<rparr>)))
     = Inr (PInt 7)"
proof -
  let ?w = "replying_world (Inr \<lparr>status_code = 200, body_json = Some (usage_reply (PInt 7))\<rparr>)"
  have "requests_post ?w (token_request ?w (str ''hi''))
          = Inr \<lparr>status_code = 200, body_json = Some (usage_reply (PInt 7))\<rparr>
        \<and> body_json \<lparr>status_code = 200, body_json = Some (usage_reply (PInt 7))\<rparr>
          = Some (usage_reply (PInt 7))
        \<and> getitem (usage_reply (PInt 7)) (str ''usage'')
          = Inr (PDict [(KStr (str ''prompt_tokens''), PInt 7)])
        \<and> getitem (PDict [(KStr (str ''prompt_tokens''), PInt 7)]) (str ''prompt_tokens'')
          = Inr (PInt 7)"
    by (simp add: replying_world_def usage_reply_def key_eq_KStr)
  with process_and_count_tokens_http [of "str ''hi''" ?w] show ?thesis by blast
qed

text \<open>
  C3 as stated fails: the request's URL does not start with \<open>https://\<close>, and a
  response without \<open>usage\<close> gives \<open>KeyError\<close>, not a token count.
\<close>

theorem process_and_count_tokens_https_counterexample:
  "take 8 (req_url (hd (sent (snd (process_and_count_tokens (str ''hi'')
       (replying_world (Inr \<lparr>status_code = 200, body_json = Some (PDict [])\<rparr>)))))))
     \<noteq> str ''https://''
   \<and> fst (process_and_count_tokens (str ''hi'')
       (replying_world (Inr \<lparr>status_code = 200, body_json = Some (PDict [])\<rparr>)))
     = Inl (KeyError (KStr (str ''usage'')))"
  by (simp add: process_and_count_tokens_def Let_def token_request_def api_url_def
        replying_world_def str_eq_simps)

subsection \<open>Faults\<close>

text \<open>
  C6: nothing is caught. A failing POST, a response body without \<open>usage\<close> or
  without \<open>prompt_tokens\<close>, and a failing file read each leave the function as the
  raised exception, after the one request and with nothing printed; the demonstration
  passes a failing POST on and stops there.
\<close>

theorem faults_propagate:
  "(requests_post w (token_request w text) = Inl e
      \<longrightarrow> process_and_count_tokens text w
           = (Inl e, w\<lparr>sent := sent w @ [token_request w text]\<rparr>))
   \<and> (requests_post w (token_request w text) = Inr resp \<and> body_json resp = Some (PDict d)
        \<and> dict_get d (KStr (str ''usage'')) = None
      \<longrightarrow> process_and_count_tokens text w
           = (Inl (KeyError (KStr (str ''usage''))),
              w\<lparr>sent := sent w @ [token_request w text]\<rparr>))
   \<and> (requests_post w (token_request w text) = Inr resp \<and> body_json resp = Some (PDict d)
        \<and> dict_get d (KStr (str ''usage'')) = Some (PDict u)
        \<and> dict_get u (KStr (str ''prompt_tokens'')) = None
      \<longrightarrow> process_and_count_tokens text w
           = (Inl (KeyError (KStr (str ''prompt_tokens''))),
              w\<lparr>sent := sent w @ [token_request w text]\<rparr>))
   \<and> (read_binary w image_path = Inl e \<longrightarrow> base64_encoding image_path w = (Inl e, w))
   \<and> (requests_post w (token_request w demo_text) = Inl e
      \<longrightarrow> main w
           = (Inl e, w\<lparr>sent := sent w @ [token_request w demo_text],
                        stdout := stdout w @ [banner ''Q1'',
                                              PStr (generate_sentiment_test_code test_text),
                                              banner ''Q2'']\<rparr>))"
  by (simp add: process_and_count_tokens_def Let_def base64_encoding_def main_def
        demo_section_def bind_io_def print_def)

theorem faults_propagate_witness:
  "process_and_count_tokens (str ''hi'') (replying_world (Inl (RequestException (str ''ConnectionError''))))
     = (Inl (RequestException (str ''ConnectionError'')),
        (replying_world (Inl (RequestException (str ''ConnectionError''))))
          \<lparr>sent := [token_request (replying_world (Inl (RequestException (str ''ConnectionError'')))) (str ''hi'')]\<rparr>)
   \<and> fst (process_and_count_tokens (str ''hi'')
            (replying_world (Inr \<lparr>status_code = 500, body_json = Some (PDict [])\<rparr>)))
     = Inl (KeyError (KStr (str ''usage'')))
   \<and> fst (process_and_count_tokens (str ''hi'')
            (replying_world (Inr \<lparr>status_code = 200,
               body_json = Some (PDict [(KStr (str ''usage''), PDict [])])\<rparr>)))
     = Inl (KeyError (KStr (str ''prompt_tokens'')))
   \<and> base64_encoding (str ''daniel.png'') (replying_world (Inl (RequestException (str ''ConnectionError''))))
     = (Inl (OSError (str ''FileNotFoundError'')),
        replying_world (Inl (RequestException (str ''ConnectionError''))))
   \<and> fst (main (replying_world (Inl (RequestException (str ''ConnectionError'')))))
     = Inl (RequestException (str ''ConnectionError''))"
  using faults_propagate [of "replying_world (Inl (RequestException (str ''ConnectionError'')))"
          "str ''hi''" "RequestException (str ''ConnectionError'')" undefined "[]" "[]"
          "str ''daniel.png''"]
        faults_propagate [of "replying_world (Inl (RequestException (str ''ConnectionError'')))"
          "str ''hi''" "OSError (str ''FileNotFoundError'')" undefined "[]" "[]"
          "str ''daniel.png''"]
        faults_propagate [of "replying_world (Inr \<lparr>status_code = 500, body_json = Some (PDict [])\<rparr>)"
          "str ''hi''" undefined "\<lparr>status_code = 500, body_json = Some (PDict [])\<rparr>" "[]" "[]"
          "str ''daniel.png''"]
        faults_propagate [of "replying_world (Inr \<lparr>status_code = 200,
               body_json = Some (PDict [(KStr (str ''usage''), PDict [])])\<rparr>)"
          "str ''hi''" undefined "\<lparr>status_code = 200,
               body_json = Some (PDict [(KStr (str ''usage''), PDict [])])\<rparr>"
          "[(KStr (str ''usage''), PDict [])]" "[]" "str ''daniel.png''"]
  by (simp add: replying_world_def key_eq_KStr)

subsection \<open>The demonstration\<close>

text \<open>
  C4: run as a script with a network call that succeeds, the demonstration prints the
  banners of Q1 to Q3 and the results of Q1 and Q2, and then raises \<open>TypeError\<close>:
  it passes a dictionary where \<open>generate_openai_address_request\<close> expects a list of
  dictionaries, so iterating yields the key strings and \<open>item["field"]\<close> fails.
  The outputs of Q3 to Q9 are never printed.
\<close>

theorem demo_raises_in_Q3:
  "requests_post w (token_request w demo_text) = Inr resp
   \<Longrightarrow> body_json resp = Some response_json
   \<Longrightarrow> getitem response_json (str ''usage'') = Inr usage
   \<Longrightarrow> getitem usage (str ''prompt_tokens'') = Inr n
   \<Longrightarrow> main w
       = (Inl TypeError,
          w\<lparr>sent := sent w @ [token_request w demo_text],
            stdout := stdout w @ [banner ''Q1'', PStr (generate_sentiment_test_code test_text),
                                  banner ''Q2'', n, banner ''Q3'']\<rparr>)"
  by (simp add: main_def demo_section_def bind_io_def print_def process_and_count_tokens_def
        Let_def generate_openai_address_request_def demo_fields_def str_eq_simps)

theorem demo_raises_in_Q3_witness:
  "main (replying_world (Inr \<lparr>status_code = 200, body_json = Some (usage_reply (PInt 7))\<rparr>))
     = (Inl TypeError,
        (replying_world (Inr \<lparr>status_code = 200, body_json = Some (usage_reply (PInt 7))\<rparr>))
          \<lparr>sent := [token_request (replying_world (Inr \<lparr>status_code = 200,
                             body_json = Some (usage_reply (PInt 7))\<rparr>)) demo_text],
            stdout := [banner ''Q1'', PStr (generate_sentiment_test_code test_text),
                       banner ''Q2'', PInt 7, banner ''Q3'']\<rparr>)"
  using demo_raises_in_Q3 [of "replying_world (Inr \<lparr>status_code = 200,
            body_json = Some (usage_reply (PInt 7))\<rparr>)"
          "\<lparr>status_code = 200, body_json = Some (usage_reply (PInt 7))\<rparr>"
          "usage_reply (PInt 7)" "PDict [(KStr (str ''prompt_tokens''), PInt 7)]" "PInt 7"]
  by (simp add: replying_world_def usage_reply_def key_eq_KStr)

subsection \<open>The image request\<close>






subsection \<open>The address request and the embedding request\<close>










end
